theory Spec2Isabelle
  imports Complex_Main
begin

section \<open>JavaScript numbers\<close>

text \<open>
  A Number is an IEEE 754 binary64 value: a finite double, given by its real value, an
  infinity or NaN (the sign of zero is not kept; nothing here depends on it).
\<close>

datatype js_number = Finite real | PosInfinity | NegInfinity | NaN

text \<open>The power of two with an integer exponent.\<close>

definition pow2 :: "int \<Rightarrow> real" where
  "pow2 e = (if 0 \<le> e then 2 ^ nat e else 1 / 2 ^ nat (- e))"

text \<open>Rounding to the nearest integer, a tie going to the even one.\<close>

definition rne :: "real \<Rightarrow> int" where
  "rne t =
     (let f = \<lfloor>t\<rfloor>; r = t - of_int f
      in if r < 1 / 2 then f else if 1 / 2 < r then f + 1 else if even f then f else f + 1)"

text \<open>
  The result of an arithmetic operation whose exact value is \<open>x\<close>: the nearest binary64
  value, ties to even. A double has 53 significant bits, so the last place of a value in
  the binade of \<open>2 ^ n\<close> is \<open>2 ^ (n - 52)\<close>; below \<open>2 ^ (- 1022)\<close> the last place stays at
  \<open>2 ^ (- 1074)\<close> (subnormal numbers), and a result that reaches \<open>2 ^ 1024\<close> overflows to
  an infinity.
\<close>

definition binary64 :: "real \<Rightarrow> js_number" where
  "binary64 x =
     (if x = 0 then Finite 0
      else
        let e = max \<lfloor>log 2 \<bar>x\<bar>\<rfloor> (- 1022) - 52;
            y = of_int (rne (x / pow2 e)) * pow2 e
        in if pow2 1024 \<le> \<bar>y\<bar>
           then (if 0 < x then PosInfinity else NegInfinity)
           else Finite y)"

text \<open>The operator \<^verbatim>\<open>*\<close> on Numbers.\<close>

fun js_times :: "js_number \<Rightarrow> js_number \<Rightarrow> js_number" where
  "js_times (Finite x) (Finite y) = binary64 (x * y)"
| "js_times NaN b = NaN"
| "js_times a NaN = NaN"
| "js_times (Finite x) PosInfinity =
     (if x = 0 then NaN else if 0 < x then PosInfinity else NegInfinity)"
| "js_times (Finite x) NegInfinity =
     (if x = 0 then NaN else if 0 < x then NegInfinity else PosInfinity)"
| "js_times PosInfinity (Finite y) =
     (if y = 0 then NaN else if 0 < y then PosInfinity else NegInfinity)"
| "js_times NegInfinity (Finite y) =
     (if y = 0 then NaN else if 0 < y then NegInfinity else PosInfinity)"
| "js_times PosInfinity PosInfinity = PosInfinity"
| "js_times PosInfinity NegInfinity = NegInfinity"
| "js_times NegInfinity PosInfinity = NegInfinity"
| "js_times NegInfinity NegInfinity = PosInfinity"

text \<open>
  \<^verbatim>\<open>Math.pow(b, n)\<close> for a finite base and a whole exponent that is not negative, taken as
  correctly rounded (the powers of ten up to \<open>10 ^ 22\<close> are doubles, and are returned as
  they are).
\<close>

definition Math_pow :: "real \<Rightarrow> nat \<Rightarrow> js_number" where
  "Math_pow b n = binary64 (b ^ n)"

text \<open>
  \<^verbatim>\<open>Math.round\<close>: the nearest integer, a half going up; the result is a double again.
\<close>

fun Math_round :: "js_number \<Rightarrow> js_number" where
  "Math_round (Finite x) = Finite (of_int \<lfloor>x + 1 / 2\<rfloor>)"
| "Math_round v = v"

section \<open>JavaScript values, errors and JSON text\<close>

text \<open>
  Values that travel through the handlers without being inspected by them, and the
  object literals the handlers build, are JavaScript values. An object literal
  \<^verbatim>\<open>{a: x, b: y}\<close> is \<open>JObj [(''a'', x), (''b'', y)]\<close>; a property that was assigned
  \<^verbatim>\<open>undefined\<close> holds \<open>JUndefined\<close>.
\<close>

datatype jsval =
    JUndefined
  | JNull
  | JBool bool
  | JNum js_number
  | JStr string
  | JArr "jsval list"
  | JObj "(string \<times> jsval) list"

text \<open>What \<^verbatim>\<open>if (v)\<close> tests.\<close>

fun js_truthy :: "jsval \<Rightarrow> bool" where
  "js_truthy JUndefined = False"
| "js_truthy JNull = False"
| "js_truthy (JBool b) = b"
| "js_truthy (JNum n) = (n \<noteq> Finite 0 \<and> n \<noteq> NaN)"
| "js_truthy (JStr s) = (s \<noteq> [])"
| "js_truthy (JArr xs) = True"
| "js_truthy (JObj kvs) = True"

text \<open>
  The text handed to \<^verbatim>\<open>JSON.parse\<close> is either the serialisation of a value or not JSON
  at all; \<open>JSON v\<close> stands for any text that parses to \<open>v\<close> (\<^verbatim>\<open>null\<close> itself is coerced
  to the text \<^verbatim>\<open>"null"\<close> and parses to \<open>JNull\<close>), \<open>NotJSON s\<close> for a text \<open>s\<close> the parser
  rejects.
\<close>

datatype json_text = NotJSON string | JSON jsval

text \<open>The platform's service call result; only its \<^verbatim>\<open>errorMessage\<close> is read.\<close>

record call_result =
  errorMessage :: json_text

text \<open>
  A thrown value. \<^verbatim>\<open>new Error(m)\<close> has the message \<open>m\<close> and no \<^verbatim>\<open>callResult\<close>; an error
  raised by the service layer carries the call result of the failed request.
\<close>

datatype js_error = JsError (name: string) (message: string) (callResult: "call_result option")

definition Error :: "string \<Rightarrow> js_error" where
  "Error m = JsError ''Error'' m None"

text \<open>
  The errors the engine itself raises. Their message texts are the engine's; the texts
  below stand for them.
\<close>

definition TypeError :: "string \<Rightarrow> js_error" where
  "TypeError property = JsError ''TypeError'' (''Cannot read property '' @ property) None"

definition SyntaxError :: "string \<Rightarrow> js_error" where
  "SyntaxError s = JsError ''SyntaxError'' (''Unexpected token in '' @ s) None"

definition JSON_parse :: "json_text \<Rightarrow> js_error + jsval" where
  "JSON_parse t = (case t of NotJSON s \<Rightarrow> Inl (SyntaxError s) | JSON v \<Rightarrow> Inr v)"

text \<open>
  Property read \<^verbatim>\<open>v.k\<close>: a TypeError on \<^verbatim>\<open>undefined\<close> and \<^verbatim>\<open>null\<close>, the member or
  \<^verbatim>\<open>undefined\<close> on an object, \<^verbatim>\<open>undefined\<close> on the other values (none of the names read
  in this program, \<^verbatim>\<open>error\<close>, \<^verbatim>\<open>code\<close>, \<^verbatim>\<open>message\<close>, \<^verbatim>\<open>value\<close>, is a built-in property
  of a boolean, number, string or array).
\<close>

fun js_get :: "jsval \<Rightarrow> string \<Rightarrow> js_error + jsval" where
  "js_get JUndefined k = Inl (TypeError k)"
| "js_get JNull k = Inl (TypeError k)"
| "js_get (JObj kvs) k = Inr (case map_of kvs k of None \<Rightarrow> JUndefined | Some v \<Rightarrow> v)"
| "js_get v k = Inr JUndefined"

text \<open>A chain of property reads \<^verbatim>\<open>v.k1.k2\<close>, left to right.\<close>

fun js_get_path :: "jsval \<Rightarrow> string list \<Rightarrow> js_error + jsval" where
  "js_get_path v [] = Inr v"
| "js_get_path v (k # ks) =
     (case js_get v k of Inl e \<Rightarrow> Inl e | Inr v' \<Rightarrow> js_get_path v' ks)"

section \<open>The processor's resources\<close>

record stripe_object =
  id' :: string

record stripe_resource = stripe_object +
  status :: string
  client_secret :: string

record next_action =
  type' :: string

text \<open>
  A payment intent. \<^verbatim>\<open>next_action\<close> is an object or \<^verbatim>\<open>null\<close>/absent (\<open>None\<close>);
  \<^verbatim>\<open>review\<close> is only tested for truthiness.
\<close>

record payment_intent = stripe_resource +
  next_action :: "next_action option"
  review :: jsval

type_synonym payment_method = stripe_object

type_synonym source = stripe_resource

section \<open>stripePaymentsHelper.js: generateCardsPaymentResponse\<close>

text \<open>
  The condition \<^verbatim>\<open>intent.status === 'requires_action' && intent.next_action.type ===
  'use_stripe_sdk'\<close>: the right operand is evaluated only when the left one holds, and
  reading \<^verbatim>\<open>type\<close> from a missing \<^verbatim>\<open>next_action\<close> throws.
\<close>

definition requires_sdk_action :: "payment_intent \<Rightarrow> js_error + bool" where
  "requires_sdk_action intent =
     (if status intent = ''requires_action''
      then (case next_action intent of
              None \<Rightarrow> Inl (TypeError ''type'')
            | Some na \<Rightarrow> Inr (type' na = ''use_stripe_sdk''))
      else Inr False)"

definition generateCardsPaymentResponse :: "payment_intent \<Rightarrow> js_error + jsval" where
  "generateCardsPaymentResponse intent =
     (case requires_sdk_action intent of
        Inl e \<Rightarrow> Inl e
      | Inr True \<Rightarrow>
          Inr (JObj [(''requires_action'', JBool True),
                     (''payment_intent_client_secret'', JStr (client_secret intent))])
      | Inr False \<Rightarrow>
          (if status intent = ''succeeded''
           then Inr (JObj [(''success'', JBool True)])
           else Inr (JObj [(''error'', JStr ''Invalid PaymentIntent status'')])))"

section \<open>Platform objects\<close>

text \<open>
  Custom attributes of a basket or an order (the platform's extensible key-value fields);
  an attribute that was never written is \<open>JNull\<close>.
\<close>

record custom_attributes =
  stripePaymentIntentID :: jsval
  stripeIsPaymentIntentInReview :: jsval

text \<open>\<^verbatim>\<open>dw.order.LineItemCtnr\<close>, the common base of baskets and orders.\<close>

record line_item_ctnr =
  custom :: custom_attributes

type_synonym basket = line_item_ctnr

text \<open>
  \<^verbatim>\<open>dw.value.Money\<close>; \<^verbatim>\<open>amount.value\<close> is a finite Number, kept by its real value.
\<close>

record money =
  available :: bool
  amount_value :: real
  currencyCode :: string

record payment_transaction =
  amount :: money

record payment_instrument =
  paymentMethod :: string
  paymentTransaction :: payment_transaction
  creditCardNumber :: jsval
  creditCardExpirationMonth :: jsval
  creditCardExpirationYear :: jsval

section \<open>Effects: persistent state, the trace of calls, exceptions\<close>

text \<open>
  What a handler does beyond returning a value is recorded in order: the calls to the
  processor, the writes to persistent objects and the transaction brackets around them.
\<close>

datatype event =
    Call_confirmPaymentIntent jsval
  | Call_createPaymentIntent payment_instrument
  | Call_paymentMethods_create jsval
  | Call_paymentIntents_create jsval
  | Transaction_begin
  | Transaction_commit
  | Transaction_rollback
  | Write string jsval

record 'p world =
  persistent :: 'p
  trace :: "event list"

text \<open>
  A statement sequence: it runs in a world and either returns a value or throws, leaving
  the world as it was at that moment.
\<close>

type_synonym ('p, 'a) js = "'p world \<Rightarrow> (js_error + 'a) \<times> 'p world"

definition js_return :: "'a \<Rightarrow> ('p, 'a) js" where
  "js_return a w = (Inr a, w)"

definition js_throw :: "js_error \<Rightarrow> ('p, 'a) js" where
  "js_throw e w = (Inl e, w)"

definition js_bind :: "('p, 'a) js \<Rightarrow> ('a \<Rightarrow> ('p, 'b) js) \<Rightarrow> ('p, 'b) js" where
  "js_bind m f w = (case m w of (Inl e, w') \<Rightarrow> (Inl e, w') | (Inr a, w') \<Rightarrow> f a w')"

definition js_try :: "('p, 'a) js \<Rightarrow> (js_error \<Rightarrow> ('p, 'a) js) \<Rightarrow> ('p, 'a) js" where
  "js_try body handler w =
     (case body w of (Inl e, w') \<Rightarrow> handler e w' | (Inr a, w') \<Rightarrow> (Inr a, w'))"

text \<open>An expression that touches no state, evaluated in sequence.\<close>

definition js_eval :: "js_error + 'a \<Rightarrow> ('p, 'a) js" where
  "js_eval r w = (r, w)"

definition emit :: "event \<Rightarrow> ('p, unit) js" where
  "emit ev w = (Inr (), w\<lparr>trace := trace w @ [ev]\<rparr>)"

text \<open>A call to the processor: recorded, then answered by the service.\<close>

definition remote :: "event \<Rightarrow> js_error + 'a \<Rightarrow> ('p, 'a) js" where
  "remote ev answer = js_bind (emit ev) (\<lambda>_. js_eval answer)"

text \<open>A write to a persistent object: recorded, then applied.\<close>

definition assign :: "string \<Rightarrow> jsval \<Rightarrow> ('p \<Rightarrow> 'p) \<Rightarrow> ('p, unit) js" where
  "assign target v upd w =
     (Inr (), \<lparr>persistent = upd (persistent w), trace = trace w @ [Write target v]\<rparr>)"

text \<open>
  \<^verbatim>\<open>dw.system.Transaction.wrap(callback)\<close> belongs to the platform. Its contract: the
  callback runs between begin and commit; when the callback throws, or the commit itself
  fails (\<open>commit\<close> gives the error for the state to be committed), the changes to
  persistent objects are rolled back and the exception is thrown to the caller.
\<close>

definition Transaction_wrap ::
    "('p \<Rightarrow> js_error option) \<Rightarrow> ('p, 'a) js \<Rightarrow> ('p, 'a) js" where
  "Transaction_wrap commit callback w =
     (case callback (w\<lparr>trace := trace w @ [Transaction_begin]\<rparr>) of
        (Inl e, w') \<Rightarrow>
          (Inl e, \<lparr>persistent = persistent w, trace = trace w' @ [Transaction_rollback]\<rparr>)
      | (Inr a, w') \<Rightarrow>
          (case commit (persistent w') of
             Some e \<Rightarrow>
               (Inl e, \<lparr>persistent = persistent w, trace = trace w' @ [Transaction_rollback]\<rparr>)
           | None \<Rightarrow> (Inr a, w'\<lparr>trace := trace w' @ [Transaction_commit]\<rparr>)))"

section \<open>stripePaymentsHelper.js: beforePaymentAuthorization\<close>

text \<open>
  The module \<^verbatim>\<open>checkoutHelper\<close> is required by the handler; its three functions are
  taken as they answer: each returns a value or throws. \<^verbatim>\<open>getStripePaymentInstrument\<close>
  reads the basket and gives an instrument or \<^verbatim>\<open>null\<close>; the other two call the processor
  and give a payment intent. None of them is taken to write to the basket.
\<close>

record checkoutHelper =
  getStripePaymentInstrument :: "basket \<Rightarrow> js_error + payment_instrument option"
  confirmPaymentIntent :: "jsval \<Rightarrow> js_error + payment_intent"
  createPaymentIntent :: "payment_instrument \<Rightarrow> js_error + payment_intent"

text \<open>
  The persistent state of this handler is the session's current basket, if any
  (\<^verbatim>\<open>BasketMgr.getCurrentBasket()\<close> gives \<^verbatim>\<open>null\<close> when there is none).
\<close>

definition getCurrentBasket :: "(basket option, basket option) js" where
  "getCurrentBasket w = (Inr (persistent w), w)"

definition set_basket_stripePaymentIntentID :: "jsval \<Rightarrow> (basket option, unit) js" where
  "set_basket_stripePaymentIntentID v =
     assign ''basket.custom.stripePaymentIntentID'' v
       (map_option (\<lambda>b. b\<lparr>custom := (custom b)\<lparr>stripePaymentIntentID := v\<rparr>\<rparr>))"

definition set_basket_stripeIsPaymentIntentInReview :: "jsval \<Rightarrow> (basket option, unit) js" where
  "set_basket_stripeIsPaymentIntentInReview v =
     assign ''basket.custom.stripeIsPaymentIntentInReview'' v
       (map_option (\<lambda>b. b\<lparr>custom := (custom b)\<lparr>stripeIsPaymentIntentInReview := v\<rparr>\<rparr>))"

text \<open>Lines 56 to 65: confirm the intent the basket carries, or create one and store its id.\<close>

definition obtainPaymentIntent ::
    "checkoutHelper \<Rightarrow> (basket option \<Rightarrow> js_error option) \<Rightarrow> basket \<Rightarrow> payment_instrument \<Rightarrow>
     (basket option, payment_intent) js" where
  "obtainPaymentIntent helper commit basket stripePaymentInstrument =
     (let paymentIntentId = stripePaymentIntentID (custom basket) in
      if js_truthy paymentIntentId
      then remote (Call_confirmPaymentIntent paymentIntentId)
             (confirmPaymentIntent helper paymentIntentId)
      else js_bind
             (remote (Call_createPaymentIntent stripePaymentInstrument)
                (createPaymentIntent helper stripePaymentInstrument))
             (\<lambda>paymentIntent.
                js_bind
                  (Transaction_wrap commit
                     (set_basket_stripePaymentIntentID (JStr (id' paymentIntent))))
                  (\<lambda>_. js_return paymentIntent)))"

text \<open>Lines 67 to 73: store the review flag when the intent is under review, then respond.\<close>

definition flagReviewAndRespond ::
    "(basket option \<Rightarrow> js_error option) \<Rightarrow> payment_intent \<Rightarrow> (basket option, jsval) js" where
  "flagReviewAndRespond commit paymentIntent =
     js_bind
       (if js_truthy (review paymentIntent)
        then Transaction_wrap commit (set_basket_stripeIsPaymentIntentInReview (JBool True))
        else js_return ())
       (\<lambda>_. js_eval (generateCardsPaymentResponse paymentIntent))"

text \<open>
  The body of the \<^verbatim>\<open>try\<close> block, returning the value \<^verbatim>\<open>responsePayload\<close> holds at its
  end. The variable is declared without a value, so it is \<^verbatim>\<open>undefined\<close> on the path that
  assigns nothing.
\<close>

definition beforePaymentAuthorization_try ::
    "checkoutHelper \<Rightarrow> (basket option \<Rightarrow> js_error option) \<Rightarrow> (basket option, jsval) js" where
  "beforePaymentAuthorization_try helper commit =
     js_bind getCurrentBasket (\<lambda>current.
       case current of
         None \<Rightarrow> js_return JUndefined
       | Some basket \<Rightarrow>
           js_bind (js_eval (getStripePaymentInstrument helper basket)) (\<lambda>found.
             case found of
               None \<Rightarrow> js_return (JObj [(''success'', JBool True)])
             | Some stripePaymentInstrument \<Rightarrow>
                 if paymentMethod stripePaymentInstrument = ''CREDIT_CARD''
                 then
                   js_bind (obtainPaymentIntent helper commit basket stripePaymentInstrument)
                     (\<lambda>paymentIntent. flagReviewAndRespond commit paymentIntent)
                 else js_return (JObj [(''success'', JBool True)])))"

text \<open>The \<^verbatim>\<open>catch\<close> block, lines 80 to 96. Nothing guards the reads inside it.\<close>

definition beforePaymentAuthorization_catch :: "js_error \<Rightarrow> js_error + jsval" where
  "beforePaymentAuthorization_catch e =
     (case callResult e of
        Some result \<Rightarrow>
          (case JSON_parse (errorMessage result) of
             Inl thrown \<Rightarrow> Inl thrown
           | Inr parsed \<Rightarrow>
               (case js_get_path parsed [''error'', ''code''] of
                  Inl thrown \<Rightarrow> Inl thrown
                | Inr code \<Rightarrow>
                    (case js_get_path parsed [''error'', ''message''] of
                       Inl thrown \<Rightarrow> Inl thrown
                     | Inr msg \<Rightarrow>
                         Inr (JObj [(''error'', JObj [(''code'', code), (''message'', msg)])]))))
      | None \<Rightarrow> Inr (JObj [(''error'', JObj [(''message'', JStr (message e))])]))"

definition beforePaymentAuthorization ::
    "checkoutHelper \<Rightarrow> (basket option \<Rightarrow> js_error option) \<Rightarrow> (basket option, jsval) js" where
  "beforePaymentAuthorization helper commit =
     js_try (beforePaymentAuthorization_try helper commit)
       (\<lambda>e. js_eval (beforePaymentAuthorization_catch e))"

section \<open>stripePaymentsHelper.js: handleAPM\<close>

text \<open>
  The two request parameters read through \<^verbatim>\<open>request.httpParameterMap\<close>; a parameter's
  \<^verbatim>\<open>stringValue\<close> is a string, or \<^verbatim>\<open>null\<close> when the request does not carry it.
\<close>

record request_parameters =
  source_stringValue :: jsval
  client_secret_stringValue :: jsval

text \<open>
  A URL built by the platform's \<^verbatim>\<open>URLUtils.url(action, name1, value1, ...)\<close>, kept as the
  arguments it was built from.
\<close>

datatype url = URLUtils_url string "string list"

text \<open>
  The service module \<^verbatim>\<open>stripeService\<close>, taken as it answers: each call returns the
  processor's resource or throws.
\<close>

record stripeService =
  sources_retrieve :: "jsval \<Rightarrow> js_error + source"
  paymentMethods_create :: "jsval \<Rightarrow> js_error + payment_method"
  paymentIntents_create :: "jsval \<Rightarrow> js_error + payment_intent"

text \<open>\<^verbatim>\<open>Array.prototype.indexOf\<close>: the first index of the element, or -1.\<close>

fun indexOf :: "'a list \<Rightarrow> 'a \<Rightarrow> int" where
  "indexOf [] x = - 1"
| "indexOf (y # ys) x =
     (if y = x then 0 else (let i = indexOf ys x in if i < 0 then - 1 else i + 1))"

definition handleAPM_try :: "stripeService \<Rightarrow> bool \<Rightarrow> request_parameters \<Rightarrow> js_error + url" where
  "handleAPM_try stripe sfra params =
     (let sourceId = source_stringValue params;
          sourceClientSecret = client_secret_stringValue params
      in case sources_retrieve stripe sourceId of
           Inl e \<Rightarrow> Inl e
         | Inr source \<Rightarrow>
             if JStr (client_secret source) \<noteq> sourceClientSecret
             then Inl (Error ''Source client secret mismatch'')
             else if indexOf [''chargeable'', ''pending''] (status source) < 0
             then Inl (Error ''Source not authorized.'')
             else if sfra
             then Inr (URLUtils_url ''Checkout-Begin'' [''stage'', ''placeOrder''])
             else Inr (URLUtils_url ''COSummary-Start'' []))"

definition handleAPM_catch :: "bool \<Rightarrow> js_error \<Rightarrow> url" where
  "handleAPM_catch sfra e =
     (if sfra
      then URLUtils_url ''Checkout-Begin'' [''stage'', ''payment'', ''apm_return_error'', message e]
      else URLUtils_url ''COBilling-Start'' [''apm_return_error'', message e])"

definition handleAPM :: "stripeService \<Rightarrow> bool \<Rightarrow> request_parameters \<Rightarrow> url" where
  "handleAPM stripe sfra params =
     (case handleAPM_try stripe sfra params of
        Inl e \<Rightarrow> handleAPM_catch sfra e
      | Inr redirectUrl \<Rightarrow> redirectUrl)"

section \<open>The authorization hooks: authorizeCreditCard and authorize\<close>

record order_address =
  city :: jsval
  countryCode :: jsval
  address1 :: jsval
  postalCode :: jsval
  stateCode :: jsval
  fullName :: jsval
  phone :: jsval

datatype payment_status = PAYMENT_STATUS_NOTPAID | PAYMENT_STATUS_PARTPAID | PAYMENT_STATUS_PAID

text \<open>An order; \<^verbatim>\<open>getBillingAddress()\<close> gives \<^verbatim>\<open>null\<close> while no billing address exists.\<close>

record order = line_item_ctnr +
  orderNo :: jsval
  customerEmail :: jsval
  billingAddress :: "order_address option"
  paymentStatus :: payment_status

record currency =
  defaultFractionDigits :: nat

text \<open>
  The platform singletons the hook reads: \<^verbatim>\<open>dw.util.Currency.getCurrency(code)\<close> (\<^verbatim>\<open>null\<close>
  for an unknown code) and the identifier of the current site.
\<close>

record platform =
  getCurrency :: "string \<Rightarrow> currency option"
  currentSiteID :: jsval

text \<open>The hook's result, \<^verbatim>\<open>new Status(status, message)\<close>; \<^verbatim>\<open>new Status(Status.OK)\<close> passes no message.\<close>

datatype status_code = OK | ERROR

datatype Status = Status status_code jsval

text \<open>
  The amount in minor units, lines 33 to 35: the product of two Numbers, rounded to a
  double as JavaScript does, then \<^verbatim>\<open>Math.round\<close>.
\<close>

definition orderAmountOf :: "platform \<Rightarrow> money \<Rightarrow> js_error + js_number" where
  "orderAmountOf pf amt =
     (case getCurrency pf (currencyCode amt) of
        None \<Rightarrow> Inl (TypeError ''getDefaultFractionDigits'')
      | Some currentCurency \<Rightarrow>
          (let multiplier = Math_pow 10 (defaultFractionDigits currentCurency)
           in Inr (Math_round (js_times (Finite (amount_value amt)) multiplier))))"

text \<open>\<^verbatim>\<open>String.prototype.toLowerCase\<close> on the ASCII letters.\<close>

definition toLowerCase :: "string \<Rightarrow> string" where
  "toLowerCase s =
     map (\<lambda>c. let n = (of_char c :: nat) in if 65 \<le> n \<and> n \<le> 90 then char_of (n + 32) else c) s"

text \<open>Lines 39 to 58: the billing details, read from the order.\<close>

definition billingDetailsOf :: "order \<Rightarrow> js_error + jsval" where
  "billingDetailsOf ord =
     (case billingAddress ord of
        None \<Rightarrow> Inl (TypeError ''city'')
      | Some address \<Rightarrow>
          (case js_get (countryCode address) ''value'' of
             Inl e \<Rightarrow> Inl e
           | Inr country \<Rightarrow>
               (case (if js_truthy (stateCode address)
                      then js_get (stateCode address) ''value'' else Inr (JStr [])) of
                  Inl e \<Rightarrow> Inl e
                | Inr state \<Rightarrow>
                    Inr (JObj
                      ([(''address'', JObj [(''city'', city address), (''country'', country),
                          (''line1'', address1 address), (''postal_code'', postalCode address),
                          (''state'', state)])]
                       @ (if js_truthy (customerEmail ord)
                          then [(''email'', customerEmail ord)] else [])
                       @ (if js_truthy (fullName address)
                          then [(''name'', fullName address)] else [])
                       @ (if js_truthy (phone address)
                          then [(''phone'', phone address)] else []))))))"

definition paymentMethodRequest :: "payment_instrument \<Rightarrow> jsval \<Rightarrow> jsval \<Rightarrow> jsval" where
  "paymentMethodRequest paymentInstrument cvc billingDetails =
     JObj [(''type'', JStr ''card''),
           (''card'', JObj [(''number'', creditCardNumber paymentInstrument),
              (''exp_month'', creditCardExpirationMonth paymentInstrument),
              (''exp_year'', creditCardExpirationYear paymentInstrument),
              (''cvc'', cvc)]),
           (''billing_details'', billingDetails)]"

definition paymentIntentRequest ::
    "platform \<Rightarrow> order \<Rightarrow> money \<Rightarrow> js_number \<Rightarrow> payment_method \<Rightarrow> jsval" where
  "paymentIntentRequest pf ord amt orderAmount paymentMethod' =
     JObj [(''amount'', JNum orderAmount),
           (''currency'', JStr (toLowerCase (currencyCode amt))),
           (''payment_method'', JStr (id' paymentMethod')),
           (''description'', JStr ''MOTO transacion''),
           (''metadata'', JObj [(''order_id'', orderNo ord), (''site_id'', currentSiteID pf)]),
           (''confirm'', JBool True),
           (''payment_method_options'', JObj [(''card'', JObj [(''moto'', JBool True)])])]"

text \<open>The persistent state of the hook is the order it was called with.\<close>

definition the_order :: "(order, order) js" where
  "the_order w = (Inr (persistent w), w)"

definition set_order_stripePaymentIntentID :: "jsval \<Rightarrow> (order, unit) js" where
  "set_order_stripePaymentIntentID v =
     assign ''order.custom.stripePaymentIntentID'' v
       (\<lambda>ord. ord\<lparr>custom := (custom ord)\<lparr>stripePaymentIntentID := v\<rparr>\<rparr>)"

definition setPaymentStatus :: "payment_status \<Rightarrow> (order, unit) js" where
  "setPaymentStatus st =
     assign ''order.paymentStatus''
       (JStr (case st of PAYMENT_STATUS_NOTPAID \<Rightarrow> ''PAYMENT_STATUS_NOTPAID''
              | PAYMENT_STATUS_PARTPAID \<Rightarrow> ''PAYMENT_STATUS_PARTPAID''
              | PAYMENT_STATUS_PAID \<Rightarrow> ''PAYMENT_STATUS_PAID''))
       (\<lambda>ord. ord\<lparr>paymentStatus := st\<rparr>)"

text \<open>Lines 85 to 92: the only place where the hook changes the order.\<close>

definition settle :: "(order \<Rightarrow> js_error option) \<Rightarrow> payment_intent \<Rightarrow> (order, unit) js" where
  "settle commit paymentIntent =
     (if status paymentIntent = ''succeeded''
      then Transaction_wrap commit
             (js_bind (set_order_stripePaymentIntentID (JStr (id' paymentIntent)))
                (\<lambda>_. setPaymentStatus PAYMENT_STATUS_PAID))
      else js_throw (Error ''Transaction auhtorization was not successful''))"

text \<open>The body of the \<^verbatim>\<open>try\<close> block, lines 28 to 92.\<close>

definition authorizeCreditCard_try ::
    "stripeService \<Rightarrow> platform \<Rightarrow> (order \<Rightarrow> js_error option) \<Rightarrow> payment_instrument \<Rightarrow> jsval \<Rightarrow>
     (order, unit) js" where
  "authorizeCreditCard_try stripe pf commit paymentInstrument cvc =
     js_bind the_order (\<lambda>ord.
       let amt = amount (paymentTransaction paymentInstrument) in
       if \<not> available amt
       then js_throw (Error ''paymentInstrument.amount not available'')
       else
         js_bind (js_eval (orderAmountOf pf amt)) (\<lambda>orderAmount.
         js_bind (js_eval (billingDetailsOf ord)) (\<lambda>billingDetails.
         js_bind
           (remote
              (Call_paymentMethods_create
                 (paymentMethodRequest paymentInstrument cvc billingDetails))
              (paymentMethods_create stripe
                 (paymentMethodRequest paymentInstrument cvc billingDetails)))
           (\<lambda>paymentMethod'.
         js_bind
           (remote
              (Call_paymentIntents_create
                 (paymentIntentRequest pf ord amt orderAmount paymentMethod'))
              (paymentIntents_create stripe
                 (paymentIntentRequest pf ord amt orderAmount paymentMethod')))
           (\<lambda>paymentIntent. settle commit paymentIntent)))))"

text \<open>The \<^verbatim>\<open>catch\<close> block, lines 93 to 101 (the logger call changes nothing).\<close>

definition authorizeCreditCard_catch :: "js_error \<Rightarrow> js_error + Status" where
  "authorizeCreditCard_catch e =
     (case callResult e of
        Some result \<Rightarrow>
          (case JSON_parse (errorMessage result) of
             Inl thrown \<Rightarrow> Inl thrown
           | Inr parsed \<Rightarrow>
               (case js_get_path parsed [''error'', ''message''] of
                  Inl thrown \<Rightarrow> Inl thrown
                | Inr m \<Rightarrow> Inr (Status ERROR m)))
      | None \<Rightarrow> Inr (Status ERROR (JStr (message e))))"

definition authorizeCreditCard ::
    "stripeService \<Rightarrow> platform \<Rightarrow> (order \<Rightarrow> js_error option) \<Rightarrow> payment_instrument \<Rightarrow> jsval \<Rightarrow>
     (order, Status) js" where
  "authorizeCreditCard stripe pf commit paymentInstrument cvc =
     js_try
       (js_bind (authorizeCreditCard_try stripe pf commit paymentInstrument cvc)
          (\<lambda>_. js_return (Status OK JUndefined)))
       (\<lambda>e. js_eval (authorizeCreditCard_catch e))"

definition authorize :: "order \<Rightarrow> payment_instrument \<Rightarrow> Status" where
  "authorize ord paymentInstrument = Status ERROR (JStr ''Not supported'')"

section \<open>Observations on traces and states\<close>

text \<open>The calls to the processor among the events of a trace.\<close>

fun is_call :: "event \<Rightarrow> bool" where
  "is_call (Call_confirmPaymentIntent paymentIntentId) = True"
| "is_call (Call_createPaymentIntent instrument) = True"
| "is_call (Call_paymentMethods_create request) = True"
| "is_call (Call_paymentIntents_create request) = True"
| "is_call ev = False"

text \<open>The writes to persistent objects among the events of a trace.\<close>

fun is_write :: "event \<Rightarrow> bool" where
  "is_write (Write target v) = True"
| "is_write ev = False"

text \<open>The intent identifier the current basket carries, when there is a basket.\<close>

definition intentID_of :: "basket option world \<Rightarrow> jsval option" where
  "intentID_of w = map_option (\<lambda>b. stripePaymentIntentID (custom b)) (persistent w)"

section \<open>Sample inputs\<close>

definition example_source :: source where
  "example_source =
     \<lparr>id' = ''src_1'', status = ''chargeable'', client_secret = ''src_1_secret''\<rparr>"

definition example_intent :: "string \<Rightarrow> payment_intent" where
  "example_intent st =
     \<lparr>id' = ''pi_1'', status = st, client_secret = ''pi_1_secret'',
      next_action = None, review = JNull\<rparr>"

text \<open>
  A failed service call whose response body is not JSON (a gateway timeout), as the
  service layer throws it.
\<close>

definition timeout_error :: js_error where
  "timeout_error =
     JsError ''Error'' ''Stripe service error''
       (Some \<lparr>errorMessage = NotJSON ''Read timed out''\<rparr>)"

text \<open>A declined card, reported by the processor in its error envelope.\<close>

definition declined_error :: js_error where
  "declined_error =
     JsError ''Error'' ''Stripe service error''
       (Some \<lparr>errorMessage = JSON (JObj [(''error'',
          JObj [(''code'', JStr ''card_declined''),
                (''message'', JStr ''Your card was declined.'')])])\<rparr>)"

text \<open>A service that gives \<open>src\<close> for every source and \<open>answer\<close> for every new intent.\<close>

definition example_stripe :: "source \<Rightarrow> js_error + payment_intent \<Rightarrow> stripeService" where
  "example_stripe src answer =
     \<lparr>sources_retrieve = (\<lambda>sourceId. Inr src),
      paymentMethods_create = (\<lambda>request. Inr \<lparr>id' = ''pm_1''\<rparr>),
      paymentIntents_create = (\<lambda>request. answer)\<rparr>"

text \<open>19.99 USD: the amount's value is the double nearest to 19.99.\<close>

definition example_amount :: money where
  "example_amount =
     \<lparr>available = True, amount_value = 5626684784446013 / 2 ^ 48, currencyCode = ''USD''\<rparr>"



definition example_instrument :: payment_instrument where
  "example_instrument =
     \<lparr>paymentMethod = ''CREDIT_CARD'',
      paymentTransaction = \<lparr>amount = example_amount\<rparr>,
      creditCardNumber = JStr ''4242424242424242'',
      creditCardExpirationMonth = JNum (Finite 12),
      creditCardExpirationYear = JNum (Finite 2030)\<rparr>"

text \<open>A helper that finds the sample card and gives \<open>answer\<close> for every intent.\<close>

definition example_helper :: "js_error + payment_intent \<Rightarrow> checkoutHelper" where
  "example_helper answer =
     \<lparr>getStripePaymentInstrument = (\<lambda>b. Inr (Some example_instrument)),
      confirmPaymentIntent = (\<lambda>paymentIntentId. answer),
      createPaymentIntent = (\<lambda>instrument. answer)\<rparr>"

definition example_basket :: "jsval \<Rightarrow> basket" where
  "example_basket paymentIntentId =
     \<lparr>custom = \<lparr>stripePaymentIntentID = paymentIntentId,
                 stripeIsPaymentIntentInReview = JNull\<rparr>\<rparr>"

definition example_order :: order where
  "example_order =
     \<lparr>custom = \<lparr>stripePaymentIntentID = JNull, stripeIsPaymentIntentInReview = JNull\<rparr>,
      orderNo = JStr ''00001234'',
      customerEmail = JStr ''jane@example.com'',
      billingAddress = Some
        \<lparr>city = JStr ''Boston'', countryCode = JObj [(''value'', JStr ''US'')],
         address1 = JStr ''1 Main St'', postalCode = JStr ''02110'',
         stateCode = JNull, fullName = JStr ''Jane Doe'', phone = JNull\<rparr>,
      paymentStatus = PAYMENT_STATUS_NOTPAID\<rparr>"

definition example_platform :: platform where
  "example_platform =
     \<lparr>getCurrency = (\<lambda>code. if code = ''USD'' then Some \<lparr>defaultFractionDigits = 2\<rparr>
                         else if code = ''JPY'' then Some \<lparr>defaultFractionDigits = 0\<rparr>
                         else None),
      currentSiteID = JStr ''RefArch''\<rparr>"

section \<open>Unfolding the effects\<close>

lemmas js_defs = js_return_def js_throw_def js_bind_def js_try_def js_eval_def emit_def
  remote_def assign_def Transaction_wrap_def

lemma indexOf_negative: "indexOf xs x < 0 \<longleftrightarrow> x \<notin> set xs"
  by (induction xs) (auto simp add: Let_def)

section \<open>Rounding to binary64\<close>

lemma pow2_powr: "pow2 e = 2 powr of_int e"
proof (cases "0 \<le> e")
  case True
  then show ?thesis
    by (simp add: pow2_def powr_realpow [symmetric])
next
  case False
  then have "(2::real) powr of_int e = 1 / 2 powr of_int (- e)"
    by (simp add: powr_minus_divide)
  also have "2 powr of_int (- e) = (2::real) ^ nat (- e)"
    using False by (simp add: powr_realpow [symmetric])
  finally show ?thesis using False by (simp add: pow2_def)
qed

lemma pow2_pos: "0 < pow2 e"
  by (simp add: pow2_powr)


lemma binary64_in_binade:
  assumes "pow2 n \<le> \<bar>x\<bar>" and "\<bar>x\<bar> < pow2 (n + 1)" and "- 1022 \<le> n"
  shows "binary64 x =
     (let y = of_int (rne (x / pow2 (n - 52))) * pow2 (n - 52)
      in if pow2 1024 \<le> \<bar>y\<bar> then (if 0 < x then PosInfinity else NegInfinity)
         else Finite y)"
proof -
  have pos: "0 < \<bar>x\<bar>"
    using assms(1) pow2_pos [of n] by linarith
  then have "\<lfloor>log 2 \<bar>x\<bar>\<rfloor> = n"
    using assms(1,2) by (simp add: floor_log_eq_powr_iff pow2_powr)
  moreover have "x \<noteq> 0" using pos by simp
  ultimately show ?thesis
    using assms(3) by (simp add: binary64_def Let_def max_def)
qed




lemma binary64_100: "binary64 100 = Finite 100"
  by (subst binary64_in_binade [where n = 6]) (simp_all add: rne_def pow2_def Let_def)



lemma Math_pow_10_2: "Math_pow 10 2 = Finite 100"
  by (simp add: Math_pow_def binary64_100)

lemma available_example_amount: "available example_amount"
  by (simp add: example_amount_def)


lemma example_product:
  "js_times (Finite (amount_value example_amount)) (Finite 100) =
     Finite (8791694975696895 / 2 ^ 42)"
  unfolding example_amount_def js_times.simps
  by (subst binary64_in_binade [where n = 10]) (simp_all add: rne_def pow2_def Let_def)

lemma orderAmountOf_example: "orderAmountOf example_platform example_amount = Inr (Finite 1999)"
proof -
  have "getCurrency example_platform (currencyCode example_amount) =
      Some \<lparr>defaultFractionDigits = 2\<rparr>"
    by (simp add: example_platform_def example_amount_def)
  then show ?thesis
    by (simp add: orderAmountOf_def Math_pow_10_2 example_product del: js_times.simps)
qed

section \<open>Properties of the amount in minor units\<close>


text \<open>
  A tie of the double product goes to the even neighbour before \<^verbatim>\<open>Math.round\<close> sees it:
  90000000000012.125 USD times 100 is 9000000000001212.5 exactly, a tie between two
  doubles, and the product is 9000000000001212.
\<close>

lemma orderAmountOf_tie:
  "orderAmountOf example_platform
     \<lparr>available = True, amount_value = 90000000000012.125, currencyCode = ''USD''\<rparr> =
     Inr (Finite 9000000000001212)"
proof -
  have "binary64 (90000000000012.125 * 100) = Finite 9000000000001212"
    by (subst binary64_in_binade [where n = 52]) (simp_all add: rne_def pow2_def Let_def)
  then have "Math_round (js_times (Finite 90000000000012.125) (Finite 100)) =
      Finite 9000000000001212"
    by (simp only: js_times.simps Math_round.simps) simp
  then show ?thesis
    by (simp add: orderAmountOf_def example_platform_def Math_pow_10_2 del: js_times.simps)
qed

text \<open>
  The decimal amount has to be small enough for its minor units to survive the two
  roundings: 90071992547409.93 USD is \<open>2 ^ 53 + 1\<close> cents, which is no double, and the hook
  computes \<open>2 ^ 53 + 2\<close>.
\<close>

lemma orderAmountOf_large_amount:
  "binary64 (9007199254740993 / 100) = Finite (1441151880758559 / 16) \<and>
   orderAmountOf example_platform
     \<lparr>available = True, amount_value = 1441151880758559 / 16, currencyCode = ''USD''\<rparr> =
     Inr (Finite 9007199254740994)"
proof
  show "binary64 (9007199254740993 / 100) = Finite (1441151880758559 / 16)"
    by (subst binary64_in_binade [where n = 46]) (simp_all add: rne_def pow2_def Let_def)
  have "binary64 (1441151880758559 / 16 * 100) = Finite 9007199254740994"
    by (subst binary64_in_binade [where n = 53]) (simp_all add: rne_def pow2_def Let_def)
  then have "Math_round (js_times (Finite (1441151880758559 / 16)) (Finite 100)) =
      Finite 9007199254740994"
    by (simp only: js_times.simps Math_round.simps) simp
  then show "orderAmountOf example_platform
     \<lparr>available = True, amount_value = 1441151880758559 / 16, currencyCode = ''USD''\<rparr> =
     Inr (Finite 9007199254740994)"
    by (simp add: orderAmountOf_def example_platform_def Math_pow_10_2 del: js_times.simps)
qed




section \<open>Properties of generateCardsPaymentResponse\<close>

text \<open>
  C1. For every payment intent: with status \<^verbatim>\<open>requires_action\<close> and next action type
  \<^verbatim>\<open>use_stripe_sdk\<close> the response is \<^verbatim>\<open>{requires_action: true,
  payment_intent_client_secret: <the intent's client secret>}\<close>; with status \<^verbatim>\<open>succeeded\<close>
  it is \<^verbatim>\<open>{success: true}\<close>; with any other status value it is
  \<^verbatim>\<open>{error: 'Invalid PaymentIntent status'}\<close>.
\<close>

theorem generateCardsPaymentResponse_table:
  "(status intent = ''requires_action'' \<and> next_action intent = Some na \<and>
      type' na = ''use_stripe_sdk'' \<longrightarrow>
      generateCardsPaymentResponse intent =
        Inr (JObj [(''requires_action'', JBool True),
                   (''payment_intent_client_secret'', JStr (client_secret intent))])) \<and>
   (status intent = ''succeeded'' \<longrightarrow>
      generateCardsPaymentResponse intent = Inr (JObj [(''success'', JBool True)])) \<and>
   (status intent \<noteq> ''requires_action'' \<and> status intent \<noteq> ''succeeded'' \<longrightarrow>
      generateCardsPaymentResponse intent =
        Inr (JObj [(''error'', JStr ''Invalid PaymentIntent status'')]))"
  by (simp add: generateCardsPaymentResponse_def requires_sdk_action_def)

theorem generateCardsPaymentResponse_table_witness:
  "generateCardsPaymentResponse
     \<lparr>id' = ''pi_1'', status = ''requires_action'', client_secret = ''pi_1_secret'',
      next_action = Some \<lparr>type' = ''use_stripe_sdk''\<rparr>, review = JNull\<rparr> =
     Inr (JObj [(''requires_action'', JBool True),
                (''payment_intent_client_secret'', JStr ''pi_1_secret'')]) \<and>
   generateCardsPaymentResponse
     \<lparr>id' = ''pi_2'', status = ''succeeded'', client_secret = ''pi_2_secret'',
      next_action = None, review = JNull\<rparr> =
     Inr (JObj [(''success'', JBool True)]) \<and>
   generateCardsPaymentResponse
     \<lparr>id' = ''pi_3'', status = ''processing'', client_secret = ''pi_3_secret'',
      next_action = None, review = JNull\<rparr> =
     Inr (JObj [(''error'', JStr ''Invalid PaymentIntent status'')])"
  using
    generateCardsPaymentResponse_table
      [of "\<lparr>id' = ''pi_1'', status = ''requires_action'', client_secret = ''pi_1_secret'',
            next_action = Some \<lparr>type' = ''use_stripe_sdk''\<rparr>, review = JNull\<rparr>"
          "\<lparr>type' = ''use_stripe_sdk''\<rparr>"]
    generateCardsPaymentResponse_table
      [of "\<lparr>id' = ''pi_2'', status = ''succeeded'', client_secret = ''pi_2_secret'',
            next_action = None, review = JNull\<rparr>"]
    generateCardsPaymentResponse_table
      [of "\<lparr>id' = ''pi_3'', status = ''processing'', client_secret = ''pi_3_secret'',
            next_action = None, review = JNull\<rparr>"]
  by simp

text \<open>
  C10. The response function reads \<^verbatim>\<open>intent.next_action.type\<close> whenever the status is
  \<^verbatim>\<open>requires_action\<close>: for an intent with that status and no \<^verbatim>\<open>next_action\<close> it throws a
  TypeError instead of returning the \<^verbatim>\<open>{error: 'Invalid PaymentIntent status'}\<close> payload,
  and it returns a payload exactly when \<^verbatim>\<open>next_action\<close> is present for that status.
\<close>

theorem generateCardsPaymentResponse_faults:
  "(status intent = ''requires_action'' \<and> next_action intent = None \<longrightarrow>
      generateCardsPaymentResponse intent = Inl (TypeError ''type'') \<and>
      generateCardsPaymentResponse intent \<noteq>
        Inr (JObj [(''error'', JStr ''Invalid PaymentIntent status'')])) \<and>
   ((\<exists>payload. generateCardsPaymentResponse intent = Inr payload) \<longleftrightarrow>
      \<not> (status intent = ''requires_action'' \<and> next_action intent = None))"
  by (auto simp add: generateCardsPaymentResponse_def requires_sdk_action_def
      split: option.splits bool.splits)

theorem generateCardsPaymentResponse_faults_witness:
  "generateCardsPaymentResponse
     \<lparr>id' = ''pi_4'', status = ''requires_action'', client_secret = ''pi_4_secret'',
      next_action = None, review = JNull\<rparr> = Inl (TypeError ''type'') \<and>
   generateCardsPaymentResponse
     \<lparr>id' = ''pi_4'', status = ''requires_action'', client_secret = ''pi_4_secret'',
      next_action = None, review = JNull\<rparr> \<noteq>
     Inr (JObj [(''error'', JStr ''Invalid PaymentIntent status'')])"
  using
    generateCardsPaymentResponse_faults
      [of "\<lparr>id' = ''pi_4'', status = ''requires_action'', client_secret = ''pi_4_secret'',
            next_action = None, review = JNull\<rparr>"]
  by simp

section \<open>Properties of handleAPM\<close>

text \<open>
  C5. The handler returns a success URL (the place-order stage, or the order summary)
  only when the retrieved source carries the client secret the request supplied and its
  status is \<^verbatim>\<open>chargeable\<close> or \<^verbatim>\<open>pending\<close>. On a client secret mismatch, and on any other
  status, it returns the payment-step URL carrying the error message as the
  \<^verbatim>\<open>apm_return_error\<close> parameter, which is never a success URL.
\<close>

theorem handleAPM_redirect:
  "(handleAPM stripe sfra params \<in>
      {URLUtils_url ''Checkout-Begin'' [''stage'', ''placeOrder''],
       URLUtils_url ''COSummary-Start'' []} \<longrightarrow>
      (\<exists>source. sources_retrieve stripe (source_stringValue params) = Inr source \<and>
         JStr (client_secret source) = client_secret_stringValue params \<and>
         status source \<in> {''chargeable'', ''pending''})) \<and>
   (sources_retrieve stripe (source_stringValue params) = Inr source \<and>
      JStr (client_secret source) \<noteq> client_secret_stringValue params \<longrightarrow>
      handleAPM stripe sfra params =
        (if sfra
         then URLUtils_url ''Checkout-Begin''
                [''stage'', ''payment'', ''apm_return_error'', ''Source client secret mismatch'']
         else URLUtils_url ''COBilling-Start''
                [''apm_return_error'', ''Source client secret mismatch''])) \<and>
   (sources_retrieve stripe (source_stringValue params) = Inr source \<and>
      JStr (client_secret source) = client_secret_stringValue params \<and>
      status source \<notin> {''chargeable'', ''pending''} \<longrightarrow>
      handleAPM stripe sfra params =
        (if sfra
         then URLUtils_url ''Checkout-Begin''
                [''stage'', ''payment'', ''apm_return_error'', ''Source not authorized.'']
         else URLUtils_url ''COBilling-Start'' [''apm_return_error'', ''Source not authorized.'']))"
proof (intro conjI impI)
  assume ok: "handleAPM stripe sfra params \<in>
      {URLUtils_url ''Checkout-Begin'' [''stage'', ''placeOrder''],
       URLUtils_url ''COSummary-Start'' []}"
  show "\<exists>source. sources_retrieve stripe (source_stringValue params) = Inr source \<and>
         JStr (client_secret source) = client_secret_stringValue params \<and>
         status source \<in> {''chargeable'', ''pending''}"
  proof (cases "sources_retrieve stripe (source_stringValue params)")
    case (Inl e)
    with ok show ?thesis
      by (simp add: handleAPM_def handleAPM_try_def handleAPM_catch_def split: if_splits)
  next
    case (Inr source)
    with ok have "JStr (client_secret source) = client_secret_stringValue params \<and>
        \<not> indexOf [''chargeable'', ''pending''] (status source) < 0"
      by (simp add: handleAPM_def handleAPM_try_def handleAPM_catch_def Error_def
          del: indexOf.simps split: if_splits)
    with Inr show ?thesis
      by (simp add: indexOf_negative del: indexOf.simps)
  qed
next
  assume "sources_retrieve stripe (source_stringValue params) = Inr source \<and>
      JStr (client_secret source) \<noteq> client_secret_stringValue params"
  then show "handleAPM stripe sfra params =
        (if sfra
         then URLUtils_url ''Checkout-Begin''
                [''stage'', ''payment'', ''apm_return_error'', ''Source client secret mismatch'']
         else URLUtils_url ''COBilling-Start''
                [''apm_return_error'', ''Source client secret mismatch''])"
    by (simp add: handleAPM_def handleAPM_try_def handleAPM_catch_def Error_def)
next
  assume a: "sources_retrieve stripe (source_stringValue params) = Inr source \<and>
      JStr (client_secret source) = client_secret_stringValue params \<and>
      status source \<notin> {''chargeable'', ''pending''}"
  then have "indexOf [''chargeable'', ''pending''] (status source) < 0"
    by (simp add: indexOf_negative del: indexOf.simps)
  with a show "handleAPM stripe sfra params =
        (if sfra
         then URLUtils_url ''Checkout-Begin''
                [''stage'', ''payment'', ''apm_return_error'', ''Source not authorized.'']
         else URLUtils_url ''COBilling-Start'' [''apm_return_error'', ''Source not authorized.''])"
    by (simp add: handleAPM_def handleAPM_try_def handleAPM_catch_def Error_def
        del: indexOf.simps)
qed

theorem handleAPM_redirect_witness:
  "handleAPM (example_stripe example_source (Inr (example_intent ''succeeded''))) True
     \<lparr>source_stringValue = JStr ''src_1'', client_secret_stringValue = JStr ''src_1_secret''\<rparr> =
     URLUtils_url ''Checkout-Begin'' [''stage'', ''placeOrder''] \<and>
   (\<exists>source. sources_retrieve (example_stripe example_source (Inr (example_intent ''succeeded''))) (JStr ''src_1'') = Inr source \<and>
      client_secret source = ''src_1_secret'' \<and> status source \<in> {''chargeable'', ''pending''}) \<and>
   handleAPM (example_stripe example_source (Inr (example_intent ''succeeded''))) True
     \<lparr>source_stringValue = JStr ''src_1'', client_secret_stringValue = JStr ''forged''\<rparr> =
     URLUtils_url ''Checkout-Begin''
       [''stage'', ''payment'', ''apm_return_error'', ''Source client secret mismatch''] \<and>
   handleAPM (example_stripe (example_source\<lparr>status := ''failed''\<rparr>)
        (Inr (example_intent ''succeeded''))) False
     \<lparr>source_stringValue = JStr ''src_1'', client_secret_stringValue = JStr ''src_1_secret''\<rparr> =
     URLUtils_url ''COBilling-Start'' [''apm_return_error'', ''Source not authorized.'']"
proof -
  have ok: "handleAPM (example_stripe example_source (Inr (example_intent ''succeeded''))) True
     \<lparr>source_stringValue = JStr ''src_1'', client_secret_stringValue = JStr ''src_1_secret''\<rparr> =
     URLUtils_url ''Checkout-Begin'' [''stage'', ''placeOrder'']"
    by (simp add: handleAPM_def handleAPM_try_def example_stripe_def example_source_def)
  show ?thesis
    using ok
      handleAPM_redirect [of "example_stripe example_source (Inr (example_intent ''succeeded''))" True
        "\<lparr>source_stringValue = JStr ''src_1'', client_secret_stringValue = JStr ''src_1_secret''\<rparr>"]
      handleAPM_redirect [of "example_stripe example_source (Inr (example_intent ''succeeded''))" True
        "\<lparr>source_stringValue = JStr ''src_1'', client_secret_stringValue = JStr ''forged''\<rparr>"
        example_source]
      handleAPM_redirect [of "example_stripe (example_source\<lparr>status := ''failed''\<rparr>)
          (Inr (example_intent ''succeeded''))" False
        "\<lparr>source_stringValue = JStr ''src_1'', client_secret_stringValue = JStr ''src_1_secret''\<rparr>"
        "example_source\<lparr>status := ''failed''\<rparr>"]
    by (simp add: example_stripe_def example_source_def)
qed

section \<open>Properties of beforePaymentAuthorization\<close>

lemma obtain_confirm:
  "js_truthy (stripePaymentIntentID (custom basket)) \<Longrightarrow>
   obtainPaymentIntent helper commit basket instrument w =
     (confirmPaymentIntent helper (stripePaymentIntentID (custom basket)),
      w\<lparr>trace := trace w @ [Call_confirmPaymentIntent (stripePaymentIntentID (custom basket))]\<rparr>)"
  by (simp add: obtainPaymentIntent_def js_defs Let_def)

lemma obtain_create_throws:
  "\<not> js_truthy (stripePaymentIntentID (custom basket)) \<Longrightarrow>
   createPaymentIntent helper instrument = Inl e \<Longrightarrow>
   obtainPaymentIntent helper commit basket instrument w =
     (Inl e, w\<lparr>trace := trace w @ [Call_createPaymentIntent instrument]\<rparr>)"
  by (simp add: obtainPaymentIntent_def js_defs Let_def)

lemma obtain_create_returns:
  "\<not> js_truthy (stripePaymentIntentID (custom basket)) \<Longrightarrow>
   createPaymentIntent helper instrument = Inr intent \<Longrightarrow>
   persistent w = Some basket \<Longrightarrow>
   obtainPaymentIntent helper commit basket instrument w =
     (case commit (Some (basket\<lparr>custom := (custom basket)\<lparr>stripePaymentIntentID := JStr (id' intent)\<rparr>\<rparr>)) of
        None \<Rightarrow>
          (Inr intent,
           \<lparr>persistent = Some (basket\<lparr>custom := (custom basket)\<lparr>stripePaymentIntentID := JStr (id' intent)\<rparr>\<rparr>),
            trace = trace w @ [Call_createPaymentIntent instrument, Transaction_begin,
              Write ''basket.custom.stripePaymentIntentID'' (JStr (id' intent)), Transaction_commit]\<rparr>)
      | Some e \<Rightarrow>
          (Inl e,
           \<lparr>persistent = Some basket,
            trace = trace w @ [Call_createPaymentIntent instrument, Transaction_begin,
              Write ''basket.custom.stripePaymentIntentID'' (JStr (id' intent)), Transaction_rollback]\<rparr>))"
  by (simp add: obtainPaymentIntent_def js_defs Let_def set_basket_stripePaymentIntentID_def
      split: option.splits)

lemma flagReviewAndRespond_frame:
  "\<exists>rest. trace (snd (flagReviewAndRespond commit paymentIntent w)) = trace w @ rest \<and>
     filter is_call rest = [] \<and>
     intentID_of (snd (flagReviewAndRespond commit paymentIntent w)) = intentID_of w"
  by (cases "persistent w")
     (auto simp add: flagReviewAndRespond_def js_defs set_basket_stripeIsPaymentIntentInReview_def
       intentID_of_def split: option.splits sum.splits prod.splits)

lemma try_card:
  "persistent w = Some basket \<Longrightarrow>
   getStripePaymentInstrument helper basket = Inr (Some instrument) \<Longrightarrow>
   paymentMethod instrument = ''CREDIT_CARD'' \<Longrightarrow>
   beforePaymentAuthorization_try helper commit w =
     js_bind (obtainPaymentIntent helper commit basket instrument)
       (\<lambda>paymentIntent. flagReviewAndRespond commit paymentIntent) w"
  by (simp add: beforePaymentAuthorization_try_def getCurrentBasket_def js_bind_def js_eval_def)

lemma snd_beforePaymentAuthorization:
  "snd (beforePaymentAuthorization helper commit w) =
   snd (beforePaymentAuthorization_try helper commit w)"
  by (simp add: beforePaymentAuthorization_def js_try_def js_eval_def
      split: prod.splits sum.splits)

lemma card_run:
  assumes "persistent w = Some basket"
    and "getStripePaymentInstrument helper basket = Inr (Some instrument)"
    and "paymentMethod instrument = ''CREDIT_CARD''"
    and "obtainPaymentIntent helper commit basket instrument w = (r, w1)"
  shows "\<exists>rest. trace (snd (beforePaymentAuthorization helper commit w)) = trace w1 @ rest \<and>
     filter is_call rest = [] \<and>
     intentID_of (snd (beforePaymentAuthorization helper commit w)) = intentID_of w1"
proof (cases r)
  case (Inl e)
  with assms show ?thesis
    by (simp add: snd_beforePaymentAuthorization try_card js_bind_def)
next
  case (Inr paymentIntent)
  with assms have "snd (beforePaymentAuthorization helper commit w) =
      snd (flagReviewAndRespond commit paymentIntent w1)"
    by (simp add: snd_beforePaymentAuthorization try_card js_bind_def)
  then show ?thesis
    using flagReviewAndRespond_frame [of commit paymentIntent w1] by simp
qed

text \<open>
  C2. For a basket that holds a Stripe instrument of kind \<^verbatim>\<open>CREDIT_CARD\<close>: when the basket
  already carries an intent identifier (a truthy \<^verbatim>\<open>stripePaymentIntentID\<close>, which is what
  the handler tests), the handler confirms that intent, calls the processor for nothing
  else, and leaves the identifier as it is; when it carries none, the handler asks for a
  new intent and calls the processor for nothing else, and once the intent is returned it
  writes the new identifier onto the basket between the begin and the commit of one
  transaction, where it stays.
\<close>

theorem beforePaymentAuthorization_confirms_or_creates:
  assumes "persistent w = Some basket"
    and "getStripePaymentInstrument helper basket = Inr (Some instrument)"
    and "paymentMethod instrument = ''CREDIT_CARD''"
  shows
    "(js_truthy (stripePaymentIntentID (custom basket)) \<longrightarrow>
        (\<exists>rest. trace (snd (beforePaymentAuthorization helper commit w)) =
           trace w @ Call_confirmPaymentIntent (stripePaymentIntentID (custom basket)) # rest \<and>
           filter is_call rest = []) \<and>
        intentID_of (snd (beforePaymentAuthorization helper commit w)) =
          Some (stripePaymentIntentID (custom basket))) \<and>
     (\<not> js_truthy (stripePaymentIntentID (custom basket)) \<longrightarrow>
        (\<exists>rest. trace (snd (beforePaymentAuthorization helper commit w)) =
           trace w @ Call_createPaymentIntent instrument # rest \<and>
           filter is_call rest = [])) \<and>
     (\<not> js_truthy (stripePaymentIntentID (custom basket)) \<and>
      createPaymentIntent helper instrument = Inr intent \<and>
      commit (Some (basket\<lparr>custom := (custom basket)
                \<lparr>stripePaymentIntentID := JStr (id' intent)\<rparr>\<rparr>)) = None \<longrightarrow>
        (\<exists>rest. trace (snd (beforePaymentAuthorization helper commit w)) =
           trace w @ [Call_createPaymentIntent instrument, Transaction_begin,
             Write ''basket.custom.stripePaymentIntentID'' (JStr (id' intent)),
             Transaction_commit] @ rest) \<and>
        intentID_of (snd (beforePaymentAuthorization helper commit w)) =
          Some (JStr (id' intent)))"
proof (intro conjI impI)
  assume set: "js_truthy (stripePaymentIntentID (custom basket))"
  from card_run [OF assms obtain_confirm [OF set]]
  obtain rest where
    "trace (snd (beforePaymentAuthorization helper commit w)) =
       trace (w\<lparr>trace := trace w @
         [Call_confirmPaymentIntent (stripePaymentIntentID (custom basket))]\<rparr>) @ rest"
    "filter is_call rest = []"
    "intentID_of (snd (beforePaymentAuthorization helper commit w)) =
       intentID_of (w\<lparr>trace := trace w @
         [Call_confirmPaymentIntent (stripePaymentIntentID (custom basket))]\<rparr>)"
    by blast
  with assms(1) show
    "\<exists>rest. trace (snd (beforePaymentAuthorization helper commit w)) =
       trace w @ Call_confirmPaymentIntent (stripePaymentIntentID (custom basket)) # rest \<and>
       filter is_call rest = []"
    "intentID_of (snd (beforePaymentAuthorization helper commit w)) =
       Some (stripePaymentIntentID (custom basket))"
    by (simp_all add: intentID_of_def)
next
  assume unset: "\<not> js_truthy (stripePaymentIntentID (custom basket))"
  show "\<exists>rest. trace (snd (beforePaymentAuthorization helper commit w)) =
       trace w @ Call_createPaymentIntent instrument # rest \<and> filter is_call rest = []"
  proof (cases "createPaymentIntent helper instrument")
    case (Inl e)
    from card_run [OF assms obtain_create_throws [OF unset Inl, where commit = commit and w = w]]
    show ?thesis by auto
  next
    case (Inr intent)
    let ?stored = "Some (basket\<lparr>custom := (custom basket)
      \<lparr>stripePaymentIntentID := JStr (id' intent)\<rparr>\<rparr>)"
    show ?thesis
    proof (cases "commit ?stored")
      case None
      with obtain_create_returns [OF unset Inr assms(1), of commit]
      have "obtainPaymentIntent helper commit basket instrument w =
          (Inr intent, \<lparr>persistent = ?stored,
            trace = trace w @ [Call_createPaymentIntent instrument, Transaction_begin,
              Write ''basket.custom.stripePaymentIntentID'' (JStr (id' intent)),
              Transaction_commit]\<rparr>)"
        by simp
      from card_run [OF assms this] show ?thesis by auto
    next
      case (Some e)
      with obtain_create_returns [OF unset Inr assms(1), of commit]
      have "obtainPaymentIntent helper commit basket instrument w =
          (Inl e, \<lparr>persistent = Some basket,
            trace = trace w @ [Call_createPaymentIntent instrument, Transaction_begin,
              Write ''basket.custom.stripePaymentIntentID'' (JStr (id' intent)),
              Transaction_rollback]\<rparr>)"
        by simp
      from card_run [OF assms this] show ?thesis by auto
    qed
  qed
next
  assume a: "\<not> js_truthy (stripePaymentIntentID (custom basket)) \<and>
      createPaymentIntent helper instrument = Inr intent \<and>
      commit (Some (basket\<lparr>custom := (custom basket)
                \<lparr>stripePaymentIntentID := JStr (id' intent)\<rparr>\<rparr>)) = None"
  let ?stored = "Some (basket\<lparr>custom := (custom basket)
      \<lparr>stripePaymentIntentID := JStr (id' intent)\<rparr>\<rparr>)"
  from a obtain_create_returns [of basket helper instrument intent w commit] assms(1)
  have "obtainPaymentIntent helper commit basket instrument w =
      (Inr intent, \<lparr>persistent = ?stored,
        trace = trace w @ [Call_createPaymentIntent instrument, Transaction_begin,
          Write ''basket.custom.stripePaymentIntentID'' (JStr (id' intent)),
          Transaction_commit]\<rparr>)"
    by simp
  from card_run [OF assms this]
  show "\<exists>rest. trace (snd (beforePaymentAuthorization helper commit w)) =
       trace w @ [Call_createPaymentIntent instrument, Transaction_begin,
         Write ''basket.custom.stripePaymentIntentID'' (JStr (id' intent)),
         Transaction_commit] @ rest"
    "intentID_of (snd (beforePaymentAuthorization helper commit w)) = Some (JStr (id' intent))"
    by (auto simp add: intentID_of_def)
qed

theorem beforePaymentAuthorization_confirms_or_creates_witness:
  "(\<exists>rest. trace (snd (beforePaymentAuthorization
        (example_helper (Inr (example_intent ''succeeded''))) (\<lambda>b. None)
        \<lparr>persistent = Some (example_basket (JStr ''pi_0'')), trace = []\<rparr>)) =
      Call_confirmPaymentIntent (JStr ''pi_0'') # rest \<and> filter is_call rest = []) \<and>
   intentID_of (snd (beforePaymentAuthorization
        (example_helper (Inr (example_intent ''succeeded''))) (\<lambda>b. None)
        \<lparr>persistent = Some (example_basket (JStr ''pi_0'')), trace = []\<rparr>)) =
     Some (JStr ''pi_0'') \<and>
   (\<exists>rest. trace (snd (beforePaymentAuthorization
        (example_helper (Inr (example_intent ''succeeded''))) (\<lambda>b. None)
        \<lparr>persistent = Some (example_basket JNull), trace = []\<rparr>)) =
      [Call_createPaymentIntent example_instrument, Transaction_begin,
       Write ''basket.custom.stripePaymentIntentID'' (JStr ''pi_1''), Transaction_commit] @ rest) \<and>
   intentID_of (snd (beforePaymentAuthorization
        (example_helper (Inr (example_intent ''succeeded''))) (\<lambda>b. None)
        \<lparr>persistent = Some (example_basket JNull), trace = []\<rparr>)) =
     Some (JStr ''pi_1'')"
  using
    beforePaymentAuthorization_confirms_or_creates
      [of "\<lparr>persistent = Some (example_basket (JStr ''pi_0'')), trace = []\<rparr>"
          "example_basket (JStr ''pi_0'')"
          "example_helper (Inr (example_intent ''succeeded''))" example_instrument
          "\<lambda>b. None" "example_intent ''succeeded''"]
    beforePaymentAuthorization_confirms_or_creates
      [of "\<lparr>persistent = Some (example_basket JNull), trace = []\<rparr>"
          "example_basket JNull"
          "example_helper (Inr (example_intent ''succeeded''))" example_instrument
          "\<lambda>b. None" "example_intent ''succeeded''"]
  by (simp add: example_helper_def example_basket_def example_instrument_def
      example_intent_def)

text \<open>
  C7. The property: without an active basket the handler makes no remote call and no
  change and returns a generic success payload, and in every case it returns a payload
  and never throws. The handler at two inputs: without a current basket it calls nothing
  and writes nothing, but the value it returns is \<^verbatim>\<open>undefined\<close>, since \<^verbatim>\<open>responsePayload\<close> is
  never assigned on that path; with a basket whose intent cannot be confirmed because
  the service call timed out, the parse inside the \<^verbatim>\<open>catch\<close> block throws and the handler
  does not return at all.
\<close>

theorem beforePaymentAuthorization_without_payload:
  "beforePaymentAuthorization helper commit \<lparr>persistent = None, trace = t\<rparr> =
     (Inr JUndefined, \<lparr>persistent = None, trace = t\<rparr>) \<and>
   fst (beforePaymentAuthorization (example_helper (Inl timeout_error)) (\<lambda>b. None)
          \<lparr>persistent = Some (example_basket (JStr ''pi_0'')), trace = []\<rparr>) =
     Inl (SyntaxError ''Read timed out'')"
  by (simp add: beforePaymentAuthorization_def beforePaymentAuthorization_try_def
      beforePaymentAuthorization_catch_def obtainPaymentIntent_def getCurrentBasket_def js_defs
      example_helper_def example_basket_def example_instrument_def timeout_error_def
      JSON_parse_def Let_def)

section \<open>Properties of the authorization hooks\<close>

text \<open>
  C8. For every order and payment instrument, the hook for the payment methods other
  than cards returns a Status of error severity with the message \<^verbatim>\<open>Not supported\<close>; it
  never returns success.
\<close>

theorem authorize_not_supported:
  "authorize ord paymentInstrument = Status ERROR (JStr ''Not supported'') \<and>
   (\<forall>m. authorize ord paymentInstrument \<noteq> Status OK m)"
  by (simp add: authorize_def)

lemma settle_succeeded:
  "status intent = ''succeeded'' \<Longrightarrow>
   settle commit intent w =
     (case commit ((persistent w)\<lparr>custom := (custom (persistent w))
              \<lparr>stripePaymentIntentID := JStr (id' intent)\<rparr>,
              paymentStatus := PAYMENT_STATUS_PAID\<rparr>) of
        None \<Rightarrow>
          (Inr (),
           \<lparr>persistent = (persistent w)\<lparr>custom := (custom (persistent w))
              \<lparr>stripePaymentIntentID := JStr (id' intent)\<rparr>,
              paymentStatus := PAYMENT_STATUS_PAID\<rparr>,
            trace = trace w @ [Transaction_begin,
              Write ''order.custom.stripePaymentIntentID'' (JStr (id' intent)),
              Write ''order.paymentStatus'' (JStr ''PAYMENT_STATUS_PAID''),
              Transaction_commit]\<rparr>)
      | Some e \<Rightarrow>
          (Inl e,
           \<lparr>persistent = persistent w,
            trace = trace w @ [Transaction_begin,
              Write ''order.custom.stripePaymentIntentID'' (JStr (id' intent)),
              Write ''order.paymentStatus'' (JStr ''PAYMENT_STATUS_PAID''),
              Transaction_rollback]\<rparr>))"
  by (simp add: settle_def js_defs set_order_stripePaymentIntentID_def setPaymentStatus_def
      split: option.splits)

lemma settle_other:
  "status intent \<noteq> ''succeeded'' \<Longrightarrow>
   settle commit intent w = (Inl (Error ''Transaction auhtorization was not successful''), w)"
  by (simp add: settle_def js_defs)

lemma try_reaches_settle:
  assumes "available (amount (paymentTransaction instrument))"
    and "orderAmountOf pf (amount (paymentTransaction instrument)) = Inr orderAmount"
    and "billingDetailsOf (persistent w) = Inr billingDetails"
    and "paymentMethods_create stripe (paymentMethodRequest instrument cvc billingDetails) =
           Inr method"
    and "paymentIntents_create stripe
           (paymentIntentRequest pf (persistent w) (amount (paymentTransaction instrument))
              orderAmount method) = Inr intent"
  shows "authorizeCreditCard_try stripe pf commit instrument cvc w =
     settle commit intent
       (w\<lparr>trace := trace w @
          [Call_paymentMethods_create (paymentMethodRequest instrument cvc billingDetails),
           Call_paymentIntents_create
             (paymentIntentRequest pf (persistent w) (amount (paymentTransaction instrument))
                orderAmount method)]\<rparr>)"
  using assms
  by (simp add: authorizeCreditCard_try_def the_order_def js_return_def js_throw_def js_bind_def
      js_eval_def emit_def remote_def Let_def)

lemma try_throws_frame:
  "fst (authorizeCreditCard_try stripe pf commit instrument cvc w) = Inl e \<Longrightarrow>
   persistent (snd (authorizeCreditCard_try stripe pf commit instrument cvc w)) = persistent w \<and>
   (filter is_write
      (drop (length (trace w))
         (trace (snd (authorizeCreditCard_try stripe pf commit instrument cvc w)))) = [] \<or>
    last (trace (snd (authorizeCreditCard_try stripe pf commit instrument cvc w))) =
      Transaction_rollback)"
  by (auto simp add: authorizeCreditCard_try_def the_order_def settle_def js_defs Let_def
      set_order_stripePaymentIntentID_def setPaymentStatus_def
      split: sum.splits option.splits if_splits)

lemma snd_authorizeCreditCard:
  "snd (authorizeCreditCard stripe pf commit instrument cvc w) =
   snd (authorizeCreditCard_try stripe pf commit instrument cvc w)"
  by (simp add: authorizeCreditCard_def js_try_def js_bind_def js_eval_def js_return_def
      split: prod.splits sum.splits)

lemma fst_authorizeCreditCard:
  "fst (authorizeCreditCard stripe pf commit instrument cvc w) =
   (case fst (authorizeCreditCard_try stripe pf commit instrument cvc w) of
      Inl e \<Rightarrow> authorizeCreditCard_catch e
    | Inr u \<Rightarrow> Inr (Status OK JUndefined))"
  by (simp add: authorizeCreditCard_def js_try_def js_bind_def js_eval_def js_return_def
      split: prod.splits sum.splits)

text \<open>
  C4. When the processor answers with an intent of status \<^verbatim>\<open>succeeded\<close>, the two changes
  to the order (the intent identifier stored in \<^verbatim>\<open>order.custom.stripePaymentIntentID\<close> and
  the payment status set to paid) are made between the begin and the end of one
  transaction: when it commits, the order holds both and the hook returns success; when
  the commit fails, the order is as it was, with neither, and the error goes to the
  \<^verbatim>\<open>catch\<close> block.
\<close>

theorem authorizeCreditCard_succeeded_atomic:
  assumes "available (amount (paymentTransaction instrument))"
    and "orderAmountOf pf (amount (paymentTransaction instrument)) = Inr orderAmount"
    and "billingDetailsOf (persistent w) = Inr billingDetails"
    and "paymentMethods_create stripe (paymentMethodRequest instrument cvc billingDetails) =
           Inr method"
    and "paymentIntents_create stripe
           (paymentIntentRequest pf (persistent w) (amount (paymentTransaction instrument))
              orderAmount method) = Inr intent"
    and "status intent = ''succeeded''"
  shows "authorizeCreditCard stripe pf commit instrument cvc w =
     (case commit ((persistent w)\<lparr>custom := (custom (persistent w))
              \<lparr>stripePaymentIntentID := JStr (id' intent)\<rparr>,
              paymentStatus := PAYMENT_STATUS_PAID\<rparr>) of
        None \<Rightarrow>
          (Inr (Status OK JUndefined),
           \<lparr>persistent = (persistent w)\<lparr>custom := (custom (persistent w))
              \<lparr>stripePaymentIntentID := JStr (id' intent)\<rparr>,
              paymentStatus := PAYMENT_STATUS_PAID\<rparr>,
            trace = trace w @
              [Call_paymentMethods_create (paymentMethodRequest instrument cvc billingDetails),
               Call_paymentIntents_create
                 (paymentIntentRequest pf (persistent w) (amount (paymentTransaction instrument))
                    orderAmount method),
               Transaction_begin,
               Write ''order.custom.stripePaymentIntentID'' (JStr (id' intent)),
               Write ''order.paymentStatus'' (JStr ''PAYMENT_STATUS_PAID''),
               Transaction_commit]\<rparr>)
      | Some e \<Rightarrow>
          (authorizeCreditCard_catch e,
           \<lparr>persistent = persistent w,
            trace = trace w @
              [Call_paymentMethods_create (paymentMethodRequest instrument cvc billingDetails),
               Call_paymentIntents_create
                 (paymentIntentRequest pf (persistent w) (amount (paymentTransaction instrument))
                    orderAmount method),
               Transaction_begin,
               Write ''order.custom.stripePaymentIntentID'' (JStr (id' intent)),
               Write ''order.paymentStatus'' (JStr ''PAYMENT_STATUS_PAID''),
               Transaction_rollback]\<rparr>))"
proof -
  have "authorizeCreditCard_try stripe pf commit instrument cvc w =
     settle commit intent
       (w\<lparr>trace := trace w @
          [Call_paymentMethods_create (paymentMethodRequest instrument cvc billingDetails),
           Call_paymentIntents_create
             (paymentIntentRequest pf (persistent w) (amount (paymentTransaction instrument))
                orderAmount method)]\<rparr>)"
    using assms(1-5) by (rule try_reaches_settle)
  then show ?thesis
    using assms(6)
    by (simp add: authorizeCreditCard_def js_try_def js_bind_def js_eval_def js_return_def
        settle_succeeded split: option.splits)
qed

theorem authorizeCreditCard_succeeded_atomic_witness:
  "authorizeCreditCard (example_stripe example_source (Inr (example_intent ''succeeded'')))
     example_platform (\<lambda>ord. None) example_instrument (JStr ''123'')
     \<lparr>persistent = example_order, trace = []\<rparr> =
     (Inr (Status OK JUndefined),
      \<lparr>persistent = example_order\<lparr>custom := (custom example_order)
           \<lparr>stripePaymentIntentID := JStr ''pi_1''\<rparr>, paymentStatus := PAYMENT_STATUS_PAID\<rparr>,
       trace =
         [Call_paymentMethods_create
            (paymentMethodRequest example_instrument (JStr ''123'')
               (JObj [(''address'', JObj [(''city'', JStr ''Boston''), (''country'', JStr ''US''),
                  (''line1'', JStr ''1 Main St''), (''postal_code'', JStr ''02110''),
                  (''state'', JStr [])]),
                (''email'', JStr ''jane@example.com''), (''name'', JStr ''Jane Doe'')])),
          Call_paymentIntents_create
            (paymentIntentRequest example_platform example_order
               (amount (paymentTransaction example_instrument)) (Finite 1999)
               \<lparr>id' = ''pm_1''\<rparr>),
          Transaction_begin,
          Write ''order.custom.stripePaymentIntentID'' (JStr ''pi_1''),
          Write ''order.paymentStatus'' (JStr ''PAYMENT_STATUS_PAID''),
          Transaction_commit]\<rparr>) \<and>
   snd (authorizeCreditCard (example_stripe example_source (Inr (example_intent ''succeeded'')))
     example_platform (\<lambda>ord. Some (Error ''commit failed'')) example_instrument (JStr ''123'')
     \<lparr>persistent = example_order, trace = []\<rparr>) =
     \<lparr>persistent = example_order,
       trace =
         [Call_paymentMethods_create
            (paymentMethodRequest example_instrument (JStr ''123'')
               (JObj [(''address'', JObj [(''city'', JStr ''Boston''), (''country'', JStr ''US''),
                  (''line1'', JStr ''1 Main St''), (''postal_code'', JStr ''02110''),
                  (''state'', JStr [])]),
                (''email'', JStr ''jane@example.com''), (''name'', JStr ''Jane Doe'')])),
          Call_paymentIntents_create
            (paymentIntentRequest example_platform example_order
               (amount (paymentTransaction example_instrument)) (Finite 1999)
               \<lparr>id' = ''pm_1''\<rparr>),
          Transaction_begin,
          Write ''order.custom.stripePaymentIntentID'' (JStr ''pi_1''),
          Write ''order.paymentStatus'' (JStr ''PAYMENT_STATUS_PAID''),
          Transaction_rollback]\<rparr>"
proof -
  let ?details = "JObj [(''address'', JObj [(''city'', JStr ''Boston''), (''country'', JStr ''US''),
      (''line1'', JStr ''1 Main St''), (''postal_code'', JStr ''02110''), (''state'', JStr [])]),
    (''email'', JStr ''jane@example.com''), (''name'', JStr ''Jane Doe'')]"
  let ?stripe = "example_stripe example_source (Inr (example_intent ''succeeded''))"
  let ?w = "\<lparr>persistent = example_order, trace = []\<rparr>"
  have h1: "available (amount (paymentTransaction example_instrument))"
    by (simp add: example_instrument_def available_example_amount)
  have h2: "orderAmountOf example_platform (amount (paymentTransaction example_instrument)) =
      Inr (Finite 1999)"
    by (simp add: example_instrument_def orderAmountOf_example)
  have h3: "billingDetailsOf (persistent ?w) = Inr ?details"
    by (simp add: billingDetailsOf_def example_order_def)
  have h4: "paymentMethods_create ?stripe
      (paymentMethodRequest example_instrument (JStr ''123'') ?details) = Inr \<lparr>id' = ''pm_1''\<rparr>"
    by (simp add: example_stripe_def)
  have h5: "paymentIntents_create ?stripe
      (paymentIntentRequest example_platform (persistent ?w)
         (amount (paymentTransaction example_instrument)) (Finite 1999) \<lparr>id' = ''pm_1''\<rparr>) =
      Inr (example_intent ''succeeded'')"
    by (simp add: example_stripe_def)
  have h6: "status (example_intent ''succeeded'') = ''succeeded''"
    by (simp add: example_intent_def)
  show ?thesis
    using authorizeCreditCard_succeeded_atomic [OF h1 h2 h3 h4 h5 h6, of "\<lambda>ord. None"]
      authorizeCreditCard_succeeded_atomic [OF h1 h2 h3 h4 h5 h6,
        of "\<lambda>ord. Some (Error ''commit failed'')"]
    by (simp add: example_intent_def)
qed

text \<open>
  C9. Whenever the card hook returns a failure Status, the order is left as it was: the
  intent identifier and the payment status are those it had before the call. On every
  such run either nothing was written at all (an error was thrown before the payment was
  settled, or the intent's status was not \<^verbatim>\<open>succeeded\<close>), or the run ends with the rollback
  of the only transaction.
\<close>

theorem authorizeCreditCard_failure_leaves_order:
  assumes "fst (authorizeCreditCard stripe pf commit instrument cvc w) = Inr (Status ERROR m)"
  shows "persistent (snd (authorizeCreditCard stripe pf commit instrument cvc w)) = persistent w \<and>
   (filter is_write
      (drop (length (trace w))
         (trace (snd (authorizeCreditCard stripe pf commit instrument cvc w)))) = [] \<or>
    last (trace (snd (authorizeCreditCard stripe pf commit instrument cvc w))) =
      Transaction_rollback)"
proof (cases "fst (authorizeCreditCard_try stripe pf commit instrument cvc w)")
  case (Inl e)
  from try_throws_frame [OF Inl] show ?thesis
    by (simp only: snd_authorizeCreditCard)
next
  case (Inr u)
  with assms show ?thesis
    by (simp add: fst_authorizeCreditCard)
qed

theorem authorizeCreditCard_failure_leaves_order_witness:
  "fst (authorizeCreditCard
          (example_stripe example_source (Inr (example_intent ''requires_payment_method'')))
          example_platform (\<lambda>ord. None) example_instrument (JStr ''123'')
          \<lparr>persistent = example_order, trace = []\<rparr>) =
     Inr (Status ERROR (JStr ''Transaction auhtorization was not successful'')) \<and>
   persistent (snd (authorizeCreditCard
          (example_stripe example_source (Inr (example_intent ''requires_payment_method'')))
          example_platform (\<lambda>ord. None) example_instrument (JStr ''123'')
          \<lparr>persistent = example_order, trace = []\<rparr>)) = example_order"
proof -
  have failed: "fst (authorizeCreditCard
          (example_stripe example_source (Inr (example_intent ''requires_payment_method'')))
          example_platform (\<lambda>ord. None) example_instrument (JStr ''123'')
          \<lparr>persistent = example_order, trace = []\<rparr>) =
     Inr (Status ERROR (JStr ''Transaction auhtorization was not successful''))"
    by (simp add: authorizeCreditCard_def authorizeCreditCard_try_def
        authorizeCreditCard_catch_def settle_def the_order_def js_defs orderAmountOf_example
        available_example_amount billingDetailsOf_def example_instrument_def
        example_stripe_def example_order_def example_intent_def Error_def Let_def)
  from authorizeCreditCard_failure_leaves_order [OF failed] failed
  show ?thesis by simp
qed

text \<open>
  What the two \<^verbatim>\<open>catch\<close> blocks do with the error they receive. An error without a call
  result gives a failure carrying its own message. An error with a call result gives a
  failure carrying the \<^verbatim>\<open>error.message\<close> of the parsed envelope when the \<^verbatim>\<open>errorMessage\<close>
  parses and holds an \<^verbatim>\<open>error\<close> member; when it does not, the block itself throws.
\<close>

lemma authorizeCreditCard_catch_local:
  "callResult e = None \<Longrightarrow>
   authorizeCreditCard_catch e = Inr (Status ERROR (JStr (message e)))"
  by (simp add: authorizeCreditCard_catch_def)

lemma authorizeCreditCard_catch_remote:
  "callResult e = Some result \<Longrightarrow> errorMessage result = JSON parsed \<Longrightarrow>
   js_get_path parsed [''error'', ''message''] = Inr m \<Longrightarrow>
   authorizeCreditCard_catch e = Inr (Status ERROR m)"
  by (simp add: authorizeCreditCard_catch_def JSON_parse_def)

lemma beforePaymentAuthorization_catch_local:
  "callResult e = None \<Longrightarrow>
   beforePaymentAuthorization_catch e =
     Inr (JObj [(''error'', JObj [(''message'', JStr (message e))])])"
  by (simp add: beforePaymentAuthorization_catch_def)

lemma beforePaymentAuthorization_catch_remote:
  "callResult e = Some result \<Longrightarrow> errorMessage result = JSON parsed \<Longrightarrow>
   js_get_path parsed [''error'', ''code''] = Inr c \<Longrightarrow>
   js_get_path parsed [''error'', ''message''] = Inr m \<Longrightarrow>
   beforePaymentAuthorization_catch e =
     Inr (JObj [(''error'', JObj [(''code'', c), (''message'', m)])])"
  by (simp add: beforePaymentAuthorization_catch_def JSON_parse_def)

lemma catch_rethrows_unparsable:
  "callResult e = Some result \<Longrightarrow> errorMessage result = NotJSON s \<Longrightarrow>
   authorizeCreditCard_catch e = Inl (SyntaxError s) \<and>
   beforePaymentAuthorization_catch e = Inl (SyntaxError s)"
  by (simp add: authorizeCreditCard_catch_def beforePaymentAuthorization_catch_def
      JSON_parse_def)

lemma catch_rethrows_without_envelope:
  "callResult e = Some result \<Longrightarrow> errorMessage result = JSON parsed \<Longrightarrow>
   js_get parsed ''error'' = Inr JUndefined \<Longrightarrow>
   authorizeCreditCard_catch e = Inl (TypeError ''message'') \<and>
   beforePaymentAuthorization_catch e = Inl (TypeError ''code'')"
  by (simp add: authorizeCreditCard_catch_def beforePaymentAuthorization_catch_def
      JSON_parse_def)

text \<open>
  C6. The property: for every error caught at the boundary of \<^verbatim>\<open>authorizeCreditCard\<close> and
  of \<^verbatim>\<open>beforePaymentAuthorization\<close>, the message of a remote error is unwrapped from the
  envelope's \<^verbatim>\<open>error.message\<close>, a local error's own message is used otherwise, and a
  failure result is returned in either case instead of an exception. The handlers at two
  inputs: when the service call for the payment intent fails with a response body that is
  not JSON (\<open>timeout_error\<close>), \<^verbatim>\<open>JSON.parse\<close> throws inside the \<^verbatim>\<open>catch\<close> block of both
  handlers and the SyntaxError leaves them, so no failure result is returned; with the
  processor's own envelope (\<open>declined_error\<close>) the message is unwrapped and returned.
\<close>

theorem authorization_handlers_rethrow:
  "fst (authorizeCreditCard (example_stripe example_source (Inl timeout_error))
          example_platform (\<lambda>ord. None) example_instrument (JStr ''123'')
          \<lparr>persistent = example_order, trace = []\<rparr>) =
     Inl (SyntaxError ''Read timed out'') \<and>
   fst (beforePaymentAuthorization (example_helper (Inl timeout_error)) (\<lambda>b. None)
          \<lparr>persistent = Some (example_basket JNull), trace = []\<rparr>) =
     Inl (SyntaxError ''Read timed out'') \<and>
   fst (authorizeCreditCard (example_stripe example_source (Inl declined_error))
          example_platform (\<lambda>ord. None) example_instrument (JStr ''123'')
          \<lparr>persistent = example_order, trace = []\<rparr>) =
     Inr (Status ERROR (JStr ''Your card was declined.'')) \<and>
   fst (beforePaymentAuthorization (example_helper (Inl declined_error)) (\<lambda>b. None)
          \<lparr>persistent = Some (example_basket JNull), trace = []\<rparr>) =
     Inr (JObj [(''error'', JObj [(''code'', JStr ''card_declined''),
                                  (''message'', JStr ''Your card was declined.'')])])"
  by (simp add: authorizeCreditCard_def authorizeCreditCard_try_def
      authorizeCreditCard_catch_def the_order_def beforePaymentAuthorization_def
      beforePaymentAuthorization_try_def beforePaymentAuthorization_catch_def
      obtainPaymentIntent_def getCurrentBasket_def js_defs orderAmountOf_example
      available_example_amount billingDetailsOf_def example_instrument_def
      example_stripe_def example_order_def example_helper_def example_basket_def
      timeout_error_def declined_error_def JSON_parse_def Let_def)

end
